theory Spec2Isabelle
  imports Main
begin

section \<open>Data model of the ticket categorization service\<close>

text \<open>
  Python strings are modelled as HOL strings: a \<^typ>\<open>char\<close> is read as one of the code
  points U+0000 .. U+00FF, so the model covers every ticket whose texts stay in that range
  (all keywords, templates and checklist items of the source are plain ASCII).
\<close>

datatype ActionType = AI_CODE_PATCH | VIBE_WORKFLOW

record TicketInput =
  channel :: string
  severity :: string
  summary :: string

record ActionPlan =
  decision :: ActionType
  reasoning :: string
  next_actions_checklist :: "string list"

text \<open>
  The declared type of \<open>severity\<close> is \<open>Literal["critical", "high", "medium", "low"]\<close>:
  a validated ticket carries one of these four strings.
\<close>

definition valid_severity :: "string \<Rightarrow> bool" where
  "valid_severity s = (s \<in> set [''critical'', ''high'', ''medium'', ''low''])"

section \<open>The string operations the engine uses\<close>

text \<open>
  \<open>str.lower()\<close> on U+0000 .. U+00FF: the letters A .. Z and the Latin-1 capitals
  U+00C0 .. U+00DE (without the multiplication sign U+00D7) move up by 32, every other
  code point stays.
\<close>

definition lower_char :: "char \<Rightarrow> char" where
  "lower_char c =
     (let n = (of_char c :: nat)
      in if (65 \<le> n \<and> n \<le> 90) \<or> (192 \<le> n \<and> n \<le> 222 \<and> n \<noteq> 215)
         then char_of (n + 32) else c)"

definition str_lower :: "string \<Rightarrow> string" where
  "str_lower s = map lower_char s"

text \<open>
  \<open>str.upper()\<close>: a .. z and the Latin-1 small letters U+00E0 .. U+00FE (without the
  division sign U+00F7) move down by 32. The upper-case forms of U+00B5, U+00DF and U+00FF
  are not code points below U+0100; the engine only ever upper-cases a severity that it has
  just compared with one of the four literals, so these three never reach \<open>upper()\<close> and
  are left as they are here.
\<close>

definition upper_char :: "char \<Rightarrow> char" where
  "upper_char c =
     (let n = (of_char c :: nat)
      in if (97 \<le> n \<and> n \<le> 122) \<or> (224 \<le> n \<and> n \<le> 254 \<and> n \<noteq> 247)
         then char_of (n - 32) else c)"

definition str_upper :: "string \<Rightarrow> string" where
  "str_upper s = map upper_char s"

text \<open>\<open>s.startswith(k)\<close> and the substring test \<open>k in s\<close>.\<close>

fun starts_with :: "string \<Rightarrow> string \<Rightarrow> bool" where
  "starts_with s [] = True"
| "starts_with [] (k # ks) = False"
| "starts_with (c # cs) (k # ks) = (c = k \<and> starts_with cs ks)"

fun str_contains :: "string \<Rightarrow> string \<Rightarrow> bool" where
  "str_contains [] k = (k = [])"
| "str_contains (c # cs) k = (starts_with (c # cs) k \<or> str_contains cs k)"

text \<open>\<open>any(keyword in s for keyword in keywords)\<close>.\<close>

definition any_keyword_in :: "string list \<Rightarrow> string \<Rightarrow> bool" where
  "any_keyword_in keywords s = list_ex (\<lambda>keyword. str_contains s keyword) keywords"

section \<open>The categorization engine\<close>

definition code_keywords :: "string list" where
  "code_keywords = [''error'', ''failure'', ''bug'', ''404'', ''500'',
     ''incorrect calculation'', ''database'', ''api down'', ''system crash'']"

definition finance_keywords :: "string list" where
  "finance_keywords = [''fraud'', ''transaction'', ''payment processing'']"

definition workflow_keywords :: "string list" where
  "workflow_keywords = [''forgot password'', ''reset pin'', ''locked'', ''account blocked'',
     ''rate limit'', ''cannot log in'', ''update address'']"

definition inquiry_keywords :: "string list" where
  "inquiry_keywords = [''how to'', ''question about'', ''need help with'', ''inquire'']"

text \<open>
  Each rule of \<open>categorize_ticket\<close> either returns its plan (\<open>Some\<close>) or falls through
  to the next statement (\<open>None\<close>). The arguments are the ticket and the two locals
  \<open>summary_lower\<close> and \<open>severity\<close> (here \<open>sev\<close>) computed at the top of the function.
\<close>

definition rule1 :: "TicketInput \<Rightarrow> string \<Rightarrow> string \<Rightarrow> ActionPlan option" where
  "rule1 ticket summary_lower sev =
     (if sev \<in> set [''critical'', ''high''] then
        (if any_keyword_in code_keywords summary_lower then
           Some \<lparr> decision = AI_CODE_PATCH,
                  reasoning = ''Severity is **'' @ str_upper sev
                    @ ''** and summary suggests a core system/code failure (`''
                    @ summary ticket @ ''`).'',
                  next_actions_checklist =
                    [''Verify bug is reproducible in staging environment.'',
                     ''Create a detailed Jira ticket linking logs.'',
                     ''Tag SRE team for immediate monitoring.''] \<rparr>
         else None)
      else None)"

definition rule2 :: "TicketInput \<Rightarrow> string \<Rightarrow> string \<Rightarrow> ActionPlan option" where
  "rule2 ticket summary_lower sev =
     (if sev = ''high'' \<and> any_keyword_in finance_keywords summary_lower then
        Some \<lparr> decision = AI_CODE_PATCH,
               reasoning = ''Severity is **HIGH** and involves a critical financial process (`''
                 @ summary ticket @ ''`). Likely requires code audit/patch.'',
               next_actions_checklist =
                 [''Immediately freeze affected user accounts/processes.'',
                  ''Alert compliance and security teams.'',
                  ''Capture full transaction log details.''] \<rparr>
      else None)"

definition rule3 :: "TicketInput \<Rightarrow> string \<Rightarrow> string \<Rightarrow> ActionPlan option" where
  "rule3 ticket summary_lower sev =
     (if sev \<in> set [''medium'', ''low''] then
        (if any_keyword_in workflow_keywords summary_lower then
           Some \<lparr> decision = VIBE_WORKFLOW,
                  reasoning = ''Severity is **'' @ str_upper sev
                    @ ''** and issue relates to known user/account procedural action. Vibe workflow exists.'',
                  next_actions_checklist =
                    [''Run Vibe Script '' @ [CHR 0x27] @ ''User-Account-Unblock-v1.0'' @ [CHR 0x27] @ ''.'',
                     ''Confirm two-factor authentication reset with user via secure channel.'',
                     ''Document successful run in the ticket notes.''] \<rparr>
         else None)
      else None)"

definition rule4 :: "TicketInput \<Rightarrow> string \<Rightarrow> string \<Rightarrow> ActionPlan option" where
  "rule4 ticket summary_lower sev =
     (if any_keyword_in inquiry_keywords summary_lower then
        Some \<lparr> decision = VIBE_WORKFLOW,
               reasoning = ''The ticket appears to be a general inquiry or procedural request, best handled by a documented Vibe troubleshooting script.'',
               next_actions_checklist =
                 [''Check internal knowledge base for an existing Vibe script.'',
                  ''Reply with documented steps/FAQ link.'',
                  ''If no Vibe script exists, manually triage to L1 support.''] \<rparr>
      else None)"

definition default_a :: "TicketInput \<Rightarrow> string \<Rightarrow> string \<Rightarrow> ActionPlan option" where
  "default_a ticket summary_lower sev =
     (if sev \<in> set [''critical'', ''high''] then
        Some \<lparr> decision = AI_CODE_PATCH,
               reasoning = ''Default routing for **'' @ str_upper sev
                 @ ''** tickets. System failure is the most cautious default.'',
               next_actions_checklist =
                 [''Manually triage to L2 developer support.'',
                  ''Review the system health dashboard immediately.'',
                  ''Capture full user session data.''] \<rparr>
      else None)"

definition default_b :: ActionPlan where
  "default_b =
     \<lparr> decision = VIBE_WORKFLOW,
       reasoning = ''Default routing for unclassified medium/low severity tickets, assumed to be procedural.'',
       next_actions_checklist =
         [''Escalate to the appropriate L1 support queue for manual review.'',
          ''Monitor ticket for 30 minutes for any change in status.''] \<rparr>"

definition categorize_ticket :: "TicketInput \<Rightarrow> ActionPlan" where
  "categorize_ticket ticket =
     (let summary_lower = str_lower (summary ticket);
          sev = str_lower (severity ticket)
      in case rule1 ticket summary_lower sev of Some plan \<Rightarrow> plan | None \<Rightarrow>
        (case rule2 ticket summary_lower sev of Some plan \<Rightarrow> plan | None \<Rightarrow>
        (case rule3 ticket summary_lower sev of Some plan \<Rightarrow> plan | None \<Rightarrow>
        (case rule4 ticket summary_lower sev of Some plan \<Rightarrow> plan | None \<Rightarrow>
        (case default_a ticket summary_lower sev of Some plan \<Rightarrow> plan | None \<Rightarrow>
         default_b)))))"

section \<open>The rule table of the specification\<close>

text \<open>
  The conditions of the priority table, row by row, over the lower-cased severity and the
  lower-cased summary. They are written from the table, not from the function, and are
  related to the function by the lemmas below.
\<close>

definition rule1_matches :: "TicketInput \<Rightarrow> bool" where
  "rule1_matches t =
     ((str_lower (severity t) = ''critical'' \<or> str_lower (severity t) = ''high'')
      \<and> any_keyword_in code_keywords (str_lower (summary t)))"

definition rule2_matches :: "TicketInput \<Rightarrow> bool" where
  "rule2_matches t =
     (str_lower (severity t) = ''high''
      \<and> any_keyword_in finance_keywords (str_lower (summary t)))"

definition rule3_matches :: "TicketInput \<Rightarrow> bool" where
  "rule3_matches t =
     ((str_lower (severity t) = ''medium'' \<or> str_lower (severity t) = ''low'')
      \<and> any_keyword_in workflow_keywords (str_lower (summary t)))"

definition rule4_matches :: "TicketInput \<Rightarrow> bool" where
  "rule4_matches t = any_keyword_in inquiry_keywords (str_lower (summary t))"

text \<open>The row of the table that decides a ticket: the first one whose condition holds.\<close>

datatype branch = Rule1 | Rule2 | Rule3 | Rule4 | DefaultA | DefaultB

definition matched_branch :: "TicketInput \<Rightarrow> branch" where
  "matched_branch t =
     (if rule1_matches t then Rule1
      else if rule2_matches t then Rule2
      else if rule3_matches t then Rule3
      else if rule4_matches t then Rule4
      else if str_lower (severity t) = ''critical'' \<or> str_lower (severity t) = ''high''
        then DefaultA
      else DefaultB)"

text \<open>
  The reasoning text of each row, with a slot \<open>SEV\<close> for the severity as the engine
  prints it and a slot \<open>text\<close> for the summary.
\<close>

fun reasoning_template :: "branch \<Rightarrow> string \<Rightarrow> string \<Rightarrow> string" where
  "reasoning_template Rule1 SEV text =
     ''Severity is **'' @ SEV @ ''** and summary suggests a core system/code failure (`''
       @ text @ ''`).''"
| "reasoning_template Rule2 SEV text =
     ''Severity is **HIGH** and involves a critical financial process (`''
       @ text @ ''`). Likely requires code audit/patch.''"
| "reasoning_template Rule3 SEV text =
     ''Severity is **'' @ SEV
       @ ''** and issue relates to known user/account procedural action. Vibe workflow exists.''"
| "reasoning_template Rule4 SEV text =
     ''The ticket appears to be a general inquiry or procedural request, best handled by a documented Vibe troubleshooting script.''"
| "reasoning_template DefaultA SEV text =
     ''Default routing for **'' @ SEV
       @ ''** tickets. System failure is the most cautious default.''"
| "reasoning_template DefaultB SEV text =
     ''Default routing for unclassified medium/low severity tickets, assumed to be procedural.''"

section \<open>Facts about the string operations\<close>

lemma starts_with_iff: "starts_with s k \<longleftrightarrow> (\<exists>q. s = k @ q)"
  by (induction s k rule: starts_with.induct) auto

text \<open>\<open>str_contains\<close> is plain substring containment: no word boundaries, no tokens.\<close>

lemma str_contains_iff: "str_contains s k \<longleftrightarrow> (\<exists>p q. s = p @ k @ q)"
proof (induction s)
  case Nil
  then show ?case by auto
next
  case (Cons c cs)
  show ?case
  proof
    assume "str_contains (c # cs) k"
    then consider "starts_with (c # cs) k" | "str_contains cs k" by auto
    then show "\<exists>p q. c # cs = p @ k @ q"
    proof cases
      case 1
      then obtain q where "c # cs = k @ q" by (auto simp: starts_with_iff)
      then have "c # cs = [] @ k @ q" by simp
      then show ?thesis by blast
    next
      case 2
      then obtain p q where "cs = p @ k @ q" using Cons.IH by blast
      then have "c # cs = (c # p) @ k @ q" by simp
      then show ?thesis by blast
    qed
  next
    assume "\<exists>p q. c # cs = p @ k @ q"
    then obtain p q where pq: "c # cs = p @ k @ q" by blast
    show "str_contains (c # cs) k"
    proof (cases p)
      case Nil
      with pq have "starts_with (c # cs) k" by (auto simp: starts_with_iff)
      then show ?thesis by simp
    next
      case (Cons a p')
      with pq have "cs = p' @ k @ q" by simp
      then have "str_contains cs k" using Cons.IH by blast
      then show ?thesis by simp
    qed
  qed
qed

lemma any_keyword_in_iff:
  "any_keyword_in keywords s \<longleftrightarrow> (\<exists>k \<in> set keywords. str_contains s k)"
  by (simp add: any_keyword_in_def list_ex_iff)

lemma str_lower_literals:
  "str_lower ''critical'' = ''critical''" "str_lower ''high'' = ''high''"
  "str_lower ''medium'' = ''medium''" "str_lower ''low'' = ''low''"
  by code_simp+

lemma str_upper_literals:
  "str_upper ''critical'' = ''CRITICAL''" "str_upper ''high'' = ''HIGH''"
  "str_upper ''medium'' = ''MEDIUM''" "str_upper ''low'' = ''LOW''"
  by code_simp+

section \<open>The function against the rule table\<close>

lemma rule1_None_iff:
  "rule1 t (str_lower (summary t)) (str_lower (severity t)) = None \<longleftrightarrow> \<not> rule1_matches t"
  by (simp add: rule1_def rule1_matches_def)

lemma rule2_None_iff:
  "rule2 t (str_lower (summary t)) (str_lower (severity t)) = None \<longleftrightarrow> \<not> rule2_matches t"
  by (simp add: rule2_def rule2_matches_def)

lemma rule3_None_iff:
  "rule3 t (str_lower (summary t)) (str_lower (severity t)) = None \<longleftrightarrow> \<not> rule3_matches t"
  by (simp add: rule3_def rule3_matches_def)

lemma rule4_None_iff:
  "rule4 t (str_lower (summary t)) (str_lower (severity t)) = None \<longleftrightarrow> \<not> rule4_matches t"
  by (simp add: rule4_def rule4_matches_def)

section \<open>Properties of the engine\<close>

text \<open>
  C1 (totality). For every severity among critical, high, medium and low, every summary
  (the empty one included) and every channel, \<open>categorize_ticket\<close> returns a plan whose
  checklist is not empty. No branch of the function raises, so the model returns the plan
  itself and not an optional one.
\<close>

theorem categorize_ticket_total:
  assumes "valid_severity sev"
  shows "next_actions_checklist
           (categorize_ticket \<lparr>channel = ch, severity = sev, summary = text\<rparr>) \<noteq> []"
  by (simp add: categorize_ticket_def Let_def rule1_def rule2_def rule3_def rule4_def
      default_a_def default_b_def)

theorem categorize_ticket_total_witness:
  "valid_severity ''low'' \<and>
   next_actions_checklist
     (categorize_ticket \<lparr>channel = ''email'', severity = ''low'', summary = ''''\<rparr>) \<noteq> []"
proof -
  have h: "valid_severity ''low''" by (simp add: valid_severity_def)
  from categorize_ticket_total [OF h, of "''email''" "''''"] h show ?thesis by simp
qed

text \<open>
  C2 (rule 1). A ticket of severity critical or high whose lower-cased summary contains one
  of the nine failure keywords as a plain substring is decided AI_CODE_PATCH. The witness is
  the summary "object 40499", which contains "404" inside a longer number.
\<close>

theorem rule1_code_patch:
  assumes "severity t = ''critical'' \<or> severity t = ''high''"
    and "k \<in> set [''error'', ''failure'', ''bug'', ''404'', ''500'',
           ''incorrect calculation'', ''database'', ''api down'', ''system crash'']"
    and "str_contains (str_lower (summary t)) k"
  shows "decision (categorize_ticket t) = AI_CODE_PATCH"
proof -
  from assms(1) have sev: "str_lower (severity t) \<in> set [''critical'', ''high'']"
    by (auto simp: str_lower_literals)
  from assms(2,3) have kw: "any_keyword_in code_keywords (str_lower (summary t))"
    unfolding any_keyword_in_iff code_keywords_def by blast
  from sev kw show ?thesis
    by (simp add: categorize_ticket_def Let_def rule1_def)
qed

theorem rule1_code_patch_witness:
  "(severity \<lparr>channel = ''web'', severity = ''high'', summary = ''object 40499''\<rparr> = ''critical''
     \<or> severity \<lparr>channel = ''web'', severity = ''high'', summary = ''object 40499''\<rparr> = ''high'')
   \<and> ''404'' \<in> set [''error'', ''failure'', ''bug'', ''404'', ''500'',
           ''incorrect calculation'', ''database'', ''api down'', ''system crash'']
   \<and> str_contains
        (str_lower (summary \<lparr>channel = ''web'', severity = ''high'', summary = ''object 40499''\<rparr>))
        ''404''
   \<and> decision (categorize_ticket
        \<lparr>channel = ''web'', severity = ''high'', summary = ''object 40499''\<rparr>) = AI_CODE_PATCH"
proof -
  let ?t = "\<lparr>channel = ''web'', severity = ''high'', summary = ''object 40499''\<rparr>"
  have h1: "severity ?t = ''critical'' \<or> severity ?t = ''high''" by simp
  have h2: "''404'' \<in> set [''error'', ''failure'', ''bug'', ''404'', ''500'',
           ''incorrect calculation'', ''database'', ''api down'', ''system crash'']" by simp
  have h3: "str_contains (str_lower (summary ?t)) ''404''" by code_simp
  from rule1_code_patch [OF h1 h2 h3] h1 h2 h3 show ?thesis by blast
qed

text \<open>
  C3 (priority ordering). A ticket of severity high whose lower-cased summary contains both
  a rule-1 keyword and a rule-3 keyword is decided by rule 1: the plan is rule 1's, with
  its reasoning and its checklist, and the decision is never VIBE_WORKFLOW.
\<close>

theorem rule1_before_rule3:
  assumes "severity t = ''high''"
    and "any_keyword_in code_keywords (str_lower (summary t))"
    and "any_keyword_in workflow_keywords (str_lower (summary t))"
  shows "categorize_ticket t =
           \<lparr> decision = AI_CODE_PATCH,
             reasoning = ''Severity is **HIGH** and summary suggests a core system/code failure (`''
               @ summary t @ ''`).'',
             next_actions_checklist =
               [''Verify bug is reproducible in staging environment.'',
                ''Create a detailed Jira ticket linking logs.'',
                ''Tag SRE team for immediate monitoring.''] \<rparr>
         \<and> decision (categorize_ticket t) \<noteq> VIBE_WORKFLOW"
  using assms(1,2)
  by (simp add: categorize_ticket_def Let_def rule1_def str_lower_literals str_upper_literals)

theorem rule1_before_rule3_witness:
  "severity \<lparr>channel = ''web'', severity = ''high'',
              summary = ''database error, forgot password''\<rparr> = ''high''
   \<and> any_keyword_in code_keywords (str_lower (summary
         \<lparr>channel = ''web'', severity = ''high'', summary = ''database error, forgot password''\<rparr>))
   \<and> any_keyword_in workflow_keywords (str_lower (summary
         \<lparr>channel = ''web'', severity = ''high'', summary = ''database error, forgot password''\<rparr>))
   \<and> categorize_ticket
         \<lparr>channel = ''web'', severity = ''high'', summary = ''database error, forgot password''\<rparr> =
       \<lparr> decision = AI_CODE_PATCH,
         reasoning = ''Severity is **HIGH** and summary suggests a core system/code failure (`database error, forgot password`).'',
         next_actions_checklist =
           [''Verify bug is reproducible in staging environment.'',
            ''Create a detailed Jira ticket linking logs.'',
            ''Tag SRE team for immediate monitoring.''] \<rparr>"
proof -
  let ?t = "\<lparr>channel = ''web'', severity = ''high'', summary = ''database error, forgot password''\<rparr>"
  have h1: "severity ?t = ''high''" by simp
  have h2: "any_keyword_in code_keywords (str_lower (summary ?t))" by code_simp
  have h3: "any_keyword_in workflow_keywords (str_lower (summary ?t))" by code_simp
  from rule1_before_rule3 [OF h1 h2 h3] h1 h2 h3 show ?thesis by simp
qed

text \<open>
  C4 as stated asks for the same full plan after re-casing the summary. Rule 1 quotes the
  summary as it was given, so "DATABASE ERROR" and "database error", which have the same
  lower-cased form, get different reasoning texts.
\<close>

theorem case_insensitivity_counterexample:
  "str_lower ''DATABASE ERROR'' = ''database error''
   \<and> reasoning (categorize_ticket
        \<lparr>channel = ''web'', severity = ''high'', summary = ''DATABASE ERROR''\<rparr>)
     \<noteq> reasoning (categorize_ticket
        \<lparr>channel = ''web'', severity = ''high'', summary = ''database error''\<rparr>)"
  by code_simp

text \<open>
  C4 (case insensitivity), amended. Two tickets whose severities have the same lower-cased
  form and whose summaries have the same lower-cased form get the same decision and the
  same checklist, and their reasoning texts are the same template filled with the same
  severity, each with its own summary as given. So the whole plan is the same when only
  the severity was re-cased, and also when neither rule 1 nor rule 2 matched, the two
  rules whose reasoning quotes the summary.
\<close>

theorem case_insensitivity_amended:
  assumes "str_lower (severity t) = str_lower (severity t')"
    and "str_lower (summary t) = str_lower (summary t')"
  shows "decision (categorize_ticket t) = decision (categorize_ticket t')
       \<and> next_actions_checklist (categorize_ticket t)
           = next_actions_checklist (categorize_ticket t')
       \<and> reasoning (categorize_ticket t')
           = reasoning_template (matched_branch t) (str_upper (str_lower (severity t)))
               (summary t')
       \<and> (summary t = summary t' \<or> \<not> (rule1_matches t \<or> rule2_matches t)
            \<longrightarrow> categorize_ticket t = categorize_ticket t')"
  using assms
  by (simp add: categorize_ticket_def Let_def rule1_def rule2_def rule3_def rule4_def
      default_a_def default_b_def rule1_matches_def rule2_matches_def rule3_matches_def
      rule4_matches_def matched_branch_def)

theorem case_insensitivity_amended_witness:
  "str_lower (severity \<lparr>channel = ''web'', severity = ''HIGH'', summary = ''DATABASE ERROR''\<rparr>)
     = str_lower (severity \<lparr>channel = ''web'', severity = ''high'', summary = ''database error''\<rparr>)
   \<and> str_lower (summary \<lparr>channel = ''web'', severity = ''HIGH'', summary = ''DATABASE ERROR''\<rparr>)
     = str_lower (summary \<lparr>channel = ''web'', severity = ''high'', summary = ''database error''\<rparr>)
   \<and> decision (categorize_ticket
        \<lparr>channel = ''web'', severity = ''HIGH'', summary = ''DATABASE ERROR''\<rparr>)
     = decision (categorize_ticket
        \<lparr>channel = ''web'', severity = ''high'', summary = ''database error''\<rparr>)
   \<and> next_actions_checklist (categorize_ticket
        \<lparr>channel = ''web'', severity = ''HIGH'', summary = ''DATABASE ERROR''\<rparr>)
     = next_actions_checklist (categorize_ticket
        \<lparr>channel = ''web'', severity = ''high'', summary = ''database error''\<rparr>)
   \<and> categorize_ticket \<lparr>channel = ''web'', severity = ''HIGH'', summary = ''DATABASE ERROR''\<rparr>
     = categorize_ticket \<lparr>channel = ''web'', severity = ''high'', summary = ''DATABASE ERROR''\<rparr>"
proof -
  let ?a = "\<lparr>channel = ''web'', severity = ''HIGH'', summary = ''DATABASE ERROR''\<rparr>"
  let ?b = "\<lparr>channel = ''web'', severity = ''high'', summary = ''database error''\<rparr>"
  let ?c = "\<lparr>channel = ''web'', severity = ''high'', summary = ''DATABASE ERROR''\<rparr>"
  have sev: "str_lower (severity ?a) = str_lower (severity ?b)" by code_simp
  have sum1: "str_lower (summary ?a) = str_lower (summary ?b)" by code_simp
  have sev2: "str_lower (severity ?a) = str_lower (severity ?c)" by code_simp
  have sum2: "str_lower (summary ?a) = str_lower (summary ?c)" by simp
  have same: "summary ?a = summary ?c" by simp
  from case_insensitivity_amended [OF sev sum1] case_insensitivity_amended [OF sev2 sum2] same
    sev sum1
  show ?thesis by blast
qed

text \<open>
  C5 (determinism). Two calls on tickets with the same channel, severity and summary return
  the same decision, the same reasoning text and the same checklist, items and order
  included. The function reads nothing but its argument.
\<close>

theorem categorize_ticket_deterministic:
  assumes "channel t = channel t'" and "severity t = severity t'" and "summary t = summary t'"
  shows "decision (categorize_ticket t) = decision (categorize_ticket t')
       \<and> reasoning (categorize_ticket t) = reasoning (categorize_ticket t')
       \<and> next_actions_checklist (categorize_ticket t)
           = next_actions_checklist (categorize_ticket t')"
proof -
  from assms have "t = t'" by simp
  then show ?thesis by simp
qed

theorem categorize_ticket_deterministic_witness:
  "decision (categorize_ticket
      \<lparr>channel = ''app'', severity = ''critical'', summary = ''500 error on payment API''\<rparr>)
     = decision (categorize_ticket
      \<lparr>channel = ''app'', severity = ''critical'', summary = ''500 error on payment API''\<rparr>)
   \<and> reasoning (categorize_ticket
      \<lparr>channel = ''app'', severity = ''critical'', summary = ''500 error on payment API''\<rparr>)
     = reasoning (categorize_ticket
      \<lparr>channel = ''app'', severity = ''critical'', summary = ''500 error on payment API''\<rparr>)
   \<and> next_actions_checklist (categorize_ticket
      \<lparr>channel = ''app'', severity = ''critical'', summary = ''500 error on payment API''\<rparr>)
     = next_actions_checklist (categorize_ticket
      \<lparr>channel = ''app'', severity = ''critical'', summary = ''500 error on payment API''\<rparr>)"
  using categorize_ticket_deterministic
    [of "\<lparr>channel = ''app'', severity = ''critical'', summary = ''500 error on payment API''\<rparr>"
        "\<lparr>channel = ''app'', severity = ''critical'', summary = ''500 error on payment API''\<rparr>"]
  by simp

text \<open>
  C6 (rule 4 does not look at the severity). Whatever the severity, when none of the rules
  1 to 3 matched and the lower-cased summary contains one of the four inquiry keywords,
  the decision is VIBE_WORKFLOW. The witness has the ticket of severity medium with the
  summary "question about statement fees" and a ticket of severity critical.
\<close>

theorem rule4_any_severity:
  assumes "\<not> rule1_matches t" and "\<not> rule2_matches t" and "\<not> rule3_matches t"
    and "k \<in> set [''how to'', ''question about'', ''need help with'', ''inquire'']"
    and "str_contains (str_lower (summary t)) k"
  shows "decision (categorize_ticket t) = VIBE_WORKFLOW"
proof -
  from assms(4,5) have "rule4_matches t"
    unfolding rule4_matches_def any_keyword_in_iff inquiry_keywords_def by blast
  then obtain plan where r4: "rule4 t (str_lower (summary t)) (str_lower (severity t)) = Some plan"
    using rule4_None_iff [of t] by auto
  then have "decision plan = VIBE_WORKFLOW"
    by (auto simp: rule4_def split: if_splits)
  moreover from assms(1) have "rule1 t (str_lower (summary t)) (str_lower (severity t)) = None"
    by (simp add: rule1_None_iff)
  moreover from assms(2) have "rule2 t (str_lower (summary t)) (str_lower (severity t)) = None"
    by (simp add: rule2_None_iff)
  moreover from assms(3) have "rule3 t (str_lower (summary t)) (str_lower (severity t)) = None"
    by (simp add: rule3_None_iff)
  ultimately show ?thesis using r4
    by (simp add: categorize_ticket_def Let_def)
qed

theorem rule4_any_severity_witness:
  "\<not> rule1_matches \<lparr>channel = ''chat'', severity = ''medium'', summary = ''question about statement fees''\<rparr>
   \<and> \<not> rule2_matches \<lparr>channel = ''chat'', severity = ''medium'', summary = ''question about statement fees''\<rparr>
   \<and> \<not> rule3_matches \<lparr>channel = ''chat'', severity = ''medium'', summary = ''question about statement fees''\<rparr>
   \<and> str_contains (str_lower (summary
         \<lparr>channel = ''chat'', severity = ''medium'', summary = ''question about statement fees''\<rparr>))
       ''question about''
   \<and> decision (categorize_ticket
         \<lparr>channel = ''chat'', severity = ''medium'', summary = ''question about statement fees''\<rparr>)
       = VIBE_WORKFLOW
   \<and> \<not> rule1_matches \<lparr>channel = ''chat'', severity = ''critical'', summary = ''how to export statements''\<rparr>
   \<and> decision (categorize_ticket
         \<lparr>channel = ''chat'', severity = ''critical'', summary = ''how to export statements''\<rparr>)
       = VIBE_WORKFLOW"
proof -
  let ?d = "\<lparr>channel = ''chat'', severity = ''medium'', summary = ''question about statement fees''\<rparr>"
  let ?c = "\<lparr>channel = ''chat'', severity = ''critical'', summary = ''how to export statements''\<rparr>"
  have d1: "\<not> rule1_matches ?d" by code_simp
  have d2: "\<not> rule2_matches ?d" by code_simp
  have d3: "\<not> rule3_matches ?d" by code_simp
  have d4: "''question about'' \<in> set [''how to'', ''question about'', ''need help with'', ''inquire'']"
    by simp
  have d5: "str_contains (str_lower (summary ?d)) ''question about''" by code_simp
  have c1: "\<not> rule1_matches ?c" by code_simp
  have c2: "\<not> rule2_matches ?c" by code_simp
  have c3: "\<not> rule3_matches ?c" by code_simp
  have c4: "''how to'' \<in> set [''how to'', ''question about'', ''need help with'', ''inquire'']"
    by simp
  have c5: "str_contains (str_lower (summary ?c)) ''how to''" by code_simp
  from rule4_any_severity [OF d1 d2 d3 d4 d5] rule4_any_severity [OF c1 c2 c3 c4 c5]
    d1 d2 d3 d5 c1
  show ?thesis by blast
qed

text \<open>
  C7 (default routing). When none of the rules 1 to 4 matched, a ticket of severity critical
  or high is decided AI_CODE_PATCH and a ticket of severity medium or low is decided
  VIBE_WORKFLOW. The witness has "app feels slow today" at critical and
  "just checking balance" at low.
\<close>

theorem default_routing:
  assumes "\<not> rule1_matches t" and "\<not> rule2_matches t" and "\<not> rule3_matches t"
    and "\<not> rule4_matches t"
  shows "(severity t = ''critical'' \<or> severity t = ''high''
            \<longrightarrow> decision (categorize_ticket t) = AI_CODE_PATCH)
       \<and> (severity t = ''medium'' \<or> severity t = ''low''
            \<longrightarrow> decision (categorize_ticket t) = VIBE_WORKFLOW)"
proof -
  from assms(1) have "rule1 t (str_lower (summary t)) (str_lower (severity t)) = None"
    by (simp add: rule1_None_iff)
  moreover from assms(2) have "rule2 t (str_lower (summary t)) (str_lower (severity t)) = None"
    by (simp add: rule2_None_iff)
  moreover from assms(3) have "rule3 t (str_lower (summary t)) (str_lower (severity t)) = None"
    by (simp add: rule3_None_iff)
  moreover from assms(4) have "rule4 t (str_lower (summary t)) (str_lower (severity t)) = None"
    by (simp add: rule4_None_iff)
  ultimately have fall: "categorize_ticket t =
      (case default_a t (str_lower (summary t)) (str_lower (severity t)) of
         Some plan \<Rightarrow> plan | None \<Rightarrow> default_b)"
    by (simp add: categorize_ticket_def Let_def)
  show ?thesis
    unfolding fall
    by (auto simp add: default_a_def default_b_def str_lower_literals)
qed

theorem default_routing_witness:
  "\<not> rule4_matches \<lparr>channel = ''app'', severity = ''critical'', summary = ''app feels slow today''\<rparr>
   \<and> decision (categorize_ticket
        \<lparr>channel = ''app'', severity = ''critical'', summary = ''app feels slow today''\<rparr>)
       = AI_CODE_PATCH
   \<and> \<not> rule4_matches \<lparr>channel = ''app'', severity = ''low'', summary = ''just checking balance''\<rparr>
   \<and> decision (categorize_ticket
        \<lparr>channel = ''app'', severity = ''low'', summary = ''just checking balance''\<rparr>)
       = VIBE_WORKFLOW"
proof -
  let ?e = "\<lparr>channel = ''app'', severity = ''critical'', summary = ''app feels slow today''\<rparr>"
  let ?f = "\<lparr>channel = ''app'', severity = ''low'', summary = ''just checking balance''\<rparr>"
  have e1: "\<not> rule1_matches ?e" by code_simp
  have e2: "\<not> rule2_matches ?e" by code_simp
  have e3: "\<not> rule3_matches ?e" by code_simp
  have e4: "\<not> rule4_matches ?e" by code_simp
  have f1: "\<not> rule1_matches ?f" by code_simp
  have f2: "\<not> rule2_matches ?f" by code_simp
  have f3: "\<not> rule3_matches ?f" by code_simp
  have f4: "\<not> rule4_matches ?f" by code_simp
  from default_routing [OF e1 e2 e3 e4] default_routing [OF f1 f2 f3 f4] e4 f4
  show ?thesis by simp
qed

text \<open>
  C8 as stated has every reasoning text interpolate the severity and/or the summary
  verbatim. The reasoning of rule 4 is one constant text in which neither the severity nor
  the summary of the ticket occurs, and the reasoning of rule 1 prints the severity "high"
  as "HIGH".
\<close>

theorem reasoning_template_counterexample:
  "reasoning (categorize_ticket
      \<lparr>channel = ''email'', severity = ''medium'', summary = ''question about statement fees''\<rparr>)
     = ''The ticket appears to be a general inquiry or procedural request, best handled by a documented Vibe troubleshooting script.''
   \<and> \<not> str_contains (reasoning (categorize_ticket
      \<lparr>channel = ''email'', severity = ''medium'', summary = ''question about statement fees''\<rparr>))
        ''medium''
   \<and> \<not> str_contains (reasoning (categorize_ticket
      \<lparr>channel = ''email'', severity = ''medium'', summary = ''question about statement fees''\<rparr>))
        ''question about statement fees''
   \<and> reasoning (categorize_ticket
      \<lparr>channel = ''email'', severity = ''high'', summary = ''database error''\<rparr>)
     = ''Severity is **HIGH** and summary suggests a core system/code failure (`database error`).''
   \<and> \<not> str_contains (reasoning (categorize_ticket
      \<lparr>channel = ''email'', severity = ''high'', summary = ''database error''\<rparr>))
        ''high''"
  by code_simp

text \<open>
  C8 (reasoning templates), amended. The reasoning text is the fixed template of the first
  row of the rule table that matched. The templates of rule 1, rule 3 and default A
  interpolate the lower-cased severity in upper case, those of rule 1 and rule 2 the summary
  exactly as given, and those of rule 4 and default B are constant texts that interpolate
  nothing.
\<close>

theorem reasoning_template_amended:
  "reasoning (categorize_ticket t) =
     reasoning_template (matched_branch t) (str_upper (str_lower (severity t))) (summary t)"
  by (simp add: categorize_ticket_def Let_def rule1_def rule2_def rule3_def rule4_def
      default_a_def default_b_def matched_branch_def rule1_matches_def rule2_matches_def
      rule3_matches_def rule4_matches_def)

theorem reasoning_template_amended_witness:
  "reasoning (categorize_ticket
      \<lparr>channel = ''email'', severity = ''high'', summary = ''database error''\<rparr>)
     = reasoning_template Rule1 ''HIGH'' ''database error''"
proof -
  let ?t = "\<lparr>channel = ''email'', severity = ''high'', summary = ''database error''\<rparr>"
  have b: "matched_branch ?t = Rule1" by code_simp
  have s: "str_upper (str_lower (severity ?t)) = ''HIGH''" by code_simp
  from reasoning_template_amended [of ?t] b s show ?thesis by simp
qed

text \<open>
  C9 (the channel does not interfere). Two tickets with the same severity and the same
  summary get the same plan, whatever their channels: decision, reasoning and checklist.
\<close>

theorem channel_noninterference:
  assumes "severity t = severity t'" and "summary t = summary t'"
  shows "categorize_ticket t = categorize_ticket t'"
  using assms
  by (simp add: categorize_ticket_def Let_def rule1_def rule2_def rule3_def rule4_def
      default_a_def)

theorem channel_noninterference_witness:
  "channel \<lparr>channel = ''email'', severity = ''high'', summary = ''suspicious transaction flagged''\<rparr>
     \<noteq> channel \<lparr>channel = ''phone'', severity = ''high'', summary = ''suspicious transaction flagged''\<rparr>
   \<and> categorize_ticket
        \<lparr>channel = ''email'', severity = ''high'', summary = ''suspicious transaction flagged''\<rparr>
     = categorize_ticket
        \<lparr>channel = ''phone'', severity = ''high'', summary = ''suspicious transaction flagged''\<rparr>"
  using channel_noninterference
    [of "\<lparr>channel = ''email'', severity = ''high'', summary = ''suspicious transaction flagged''\<rparr>"
        "\<lparr>channel = ''phone'', severity = ''high'', summary = ''suspicious transaction flagged''\<rparr>"]
  by simp

text \<open>
  C10 (medium and low tickets never get AI_CODE_PATCH). A ticket of severity medium or low
  is decided VIBE_WORKFLOW whatever its summary says; the witness has a summary full of
  rule-1 and rule-2 keywords.
\<close>

theorem medium_low_workflow:
  assumes "severity t = ''medium'' \<or> severity t = ''low''"
  shows "decision (categorize_ticket t) = VIBE_WORKFLOW"
  using assms
  by (auto simp add: categorize_ticket_def Let_def rule1_def rule2_def rule3_def rule4_def
      default_a_def default_b_def str_lower_literals)

theorem medium_low_workflow_witness:
  "(severity \<lparr>channel = ''web'', severity = ''medium'', summary = ''database error and fraud''\<rparr> = ''medium''
     \<or> severity \<lparr>channel = ''web'', severity = ''medium'', summary = ''database error and fraud''\<rparr> = ''low'')
   \<and> decision (categorize_ticket
        \<lparr>channel = ''web'', severity = ''medium'', summary = ''database error and fraud''\<rparr>)
       = VIBE_WORKFLOW"
proof -
  let ?t = "\<lparr>channel = ''web'', severity = ''medium'', summary = ''database error and fraud''\<rparr>"
  have h: "severity ?t = ''medium'' \<or> severity ?t = ''low''" by simp
  from medium_low_workflow [OF h] h show ?thesis by blast
qed

end
